theory Spec2Isabelle
  imports Main
begin

section \<open>The vm-manager command line tool (src/index.js)\<close>

text \<open>
  The program is one Node script: a command handler (\<open>program.action\<close>) that validates the
  operation keyword, loads \<open>~/vvm.config.json\<close>, looks the VM record up and dispatches to
  one of four runners (\<open>startVM\<close>, \<open>stopVM\<close>, \<open>mountVM\<close>, \<open>unmountVM\<close>), two of which
  are chained through completion callbacks.

  The embedding is a trace semantics. Every effect of the script (a file-system probe, a
  child process, a timer, a line on the terminal) is an \<open>event\<close>; a run is the list of
  its events in the order they happen, together with the final value of the one mutable
  object, the configuration held in the global \<open>VMS\<close>. Everything outside the script
  (environment variables, the file system, the outcome of each child process, and the
  conversions of the JavaScript runtime that are not modelled) is read from an \<open>env\<close>.
\<close>

subsection \<open>JavaScript values\<close>

text \<open>
  The values the script handles are what \<open>JSON.parse\<close> produces, plus \<open>undefined\<close> (the
  result of reading an absent property). An object is the list of its own properties in
  insertion order; a lookup takes the first binding of a key. \<open>JNum\<close> carries a number
  with an integer value; numbers with a fractional part are outside this model.
\<close>

datatype jsval =
    JUndefined
  | JNull
  | JBool bool
  | JNum int
  | JStr string
  | JArr "jsval list"
  | JObj "(string \<times> jsval) list"

text \<open>The operand of \<open>!\<close>: \<open>falsy v\<close> holds when \<open>!v\<close> is true.\<close>

fun falsy :: "jsval \<Rightarrow> bool" where
  "falsy JUndefined = True"
| "falsy JNull = True"
| "falsy (JBool b) = (\<not> b)"
| "falsy (JNum n) = (n = 0)"
| "falsy (JStr s) = (s = [])"
| "falsy (JArr xs) = False"
| "falsy (JObj kvs) = False"

text \<open>Decimal digits of a natural number: the property key of an array index.\<close>

fun digits :: "nat \<Rightarrow> string" where
  "digits n =
     (if n < 10 then [''0123456789'' ! n]
      else digits (n div 10) @ [''0123456789'' ! (n mod 10)])"

declare digits.simps [simp del]

definition show_int :: "int \<Rightarrow> string" where
  "show_int n = (if n < 0 then CHR ''-'' # digits (nat (- n)) else digits (nat n))"

text \<open>
  \<open>_.has(obj, key)\<close> of underscore is \<open>obj != null && hasOwnProperty.call(obj, key)\<close>.
  An object owns its keys; an array and a string own \<open>length\<close> and their indices; the
  other values own nothing.
\<close>

fun has :: "jsval \<Rightarrow> string \<Rightarrow> bool" where
  "has (JObj kvs) k = (k \<in> set (map fst kvs))"
| "has (JArr xs) k = (k = ''length'' \<or> k \<in> set (map digits [0..<length xs]))"
| "has (JStr s) k = (k = ''length'' \<or> k \<in> set (map digits [0..<length s]))"
| "has v k = False"

text \<open>
  \<open>obj[key]\<close>. Every read of the script is of an own property (it follows \<open>_.has\<close> or an
  assignment) or of one of the record's field names, which no prototype defines, so an
  absent property reads as \<open>undefined\<close>.
\<close>

fun get :: "jsval \<Rightarrow> string \<Rightarrow> jsval" where
  "get (JObj kvs) k = (case map_of kvs k of Some v \<Rightarrow> v | None \<Rightarrow> JUndefined)"
| "get (JArr xs) k =
     (if k = ''length'' then JNum (int (length xs))
      else case find (\<lambda>i. digits i = k) [0..<length xs] of
        Some i \<Rightarrow> xs ! i | None \<Rightarrow> JUndefined)"
| "get (JStr s) k =
     (if k = ''length'' then JNum (int (length s))
      else case find (\<lambda>i. digits i = k) [0..<length s] of
        Some i \<Rightarrow> JStr [s ! i] | None \<Rightarrow> JUndefined)"
| "get v k = JUndefined"

text \<open>
  \<open>obj[key] = v\<close>: an object replaces the binding in place or appends a new one, an array
  replaces an element. The script assigns only to a record that has passed
  \<open>isMountableVM\<close>, which is an object; the model also uses the assignment to write a
  record back into the configuration it was read from, because \<open>vm\<close> and \<open>VMS[vmName]\<close>
  are one object.
\<close>

fun update_prop :: "string \<Rightarrow> jsval \<Rightarrow> (string \<times> jsval) list \<Rightarrow> (string \<times> jsval) list" where
  "update_prop k v [] = [(k, v)]"
| "update_prop k v (p # kvs) =
     (if fst p = k then (k, v) # kvs else p # update_prop k v kvs)"

fun set_prop :: "jsval \<Rightarrow> string \<Rightarrow> jsval \<Rightarrow> jsval" where
  "set_prop (JObj kvs) k v = JObj (update_prop k v kvs)"
| "set_prop (JArr xs) k v =
     (case find (\<lambda>i. digits i = k) [0..<length xs] of
        Some i \<Rightarrow> JArr (xs[i := v]) | None \<Rightarrow> JArr xs)"
| "set_prop w k v = w"

subsection \<open>The world outside the script\<close>

text \<open>
  The \<open>error\<close> argument of an \<open>exec\<close> callback is \<open>null\<close> or an Error whose \<open>code\<close> is
  the exit status of the child, a symbolic name when the child could not be run
  (\<open>ENOENT\<close>, ...) or \<open>null\<close> when a signal killed it.
\<close>

datatype err_code = Exit int | Errno string | NoCode

datatype exec_error = Error (code: err_code)

record exec_result =
  error :: "exec_error option"
  stdout :: "string option"
  stderr :: "string option"

record env =
  HOME :: "string option"
  USERPROFILE :: "string option"
  fileExists :: "string \<Rightarrow> bool"
  readFileSync :: "string \<Rightarrow> jsval"
    \<comment> \<open>\<open>jsonFile.readFileSync(path, {throws: false})\<close>: the parsed value, \<open>null\<close> when the
        contents are not JSON\<close>
  exec :: "string \<Rightarrow> exec_result option"
    \<comment> \<open>what the callback of \<open>exec(cmd, ...)\<close> receives; \<open>None\<close> when the child never
        completes, so that the callback never runs\<close>
  inspect :: "jsval \<Rightarrow> string"
    \<comment> \<open>the text \<open>util.format\<close> gives \<open>%s\<close> for a value that is not a primitive below\<close>
  number :: "jsval \<Rightarrow> string"
    \<comment> \<open>the text \<open>util.format\<close> gives \<open>%d\<close> for a value that is not a safe integer\<close>
  chalk_text :: "jsval \<Rightarrow> string"
    \<comment> \<open>the text chalk styles when its argument is not a string\<close>
  times :: "jsval \<Rightarrow> int \<Rightarrow> jsval"
    \<comment> \<open>\<open>v * n\<close> when \<open>v\<close> is not a number or the product is not a safe integer\<close>

subsection \<open>Terminal output and events\<close>

datatype style = Gray | Red | Green | Magenta | Bold | UnderlineRed

type_synonym styled = "(style \<times> string) list"

definition chalk :: "style \<Rightarrow> string \<Rightarrow> styled" where
  "chalk st s = [(st, s)]"

datatype event =
    FileExists string
  | ReadFile string
  | Exec string
  | SetTimeout jsval
  | Log styled
  | LogError styled

type_synonym trace = "event list"

subsection \<open>\<open>util.format\<close>\<close>

definition safe_integer :: "int \<Rightarrow> bool" where
  "safe_integer n = (\<bar>n\<bar> < 9007199254740992)"

text \<open>\<open>String(v)\<close> for the primitives whose text does not depend on the runtime.\<close>

fun primitive_text :: "jsval \<Rightarrow> string option" where
  "primitive_text (JStr s) = Some s"
| "primitive_text (JNum n) = (if safe_integer n then Some (show_int n) else None)"
| "primitive_text (JBool b) = Some (if b then ''true'' else ''false'')"
| "primitive_text JNull = Some ''null''"
| "primitive_text JUndefined = Some ''undefined''"
| "primitive_text v = None"

definition format_s :: "env \<Rightarrow> jsval \<Rightarrow> string" where
  "format_s e v = (case primitive_text v of Some s \<Rightarrow> s | None \<Rightarrow> inspect e v)"

definition format_d :: "env \<Rightarrow> jsval \<Rightarrow> string" where
  "format_d e v =
     (case v of
        JNum n \<Rightarrow> (if safe_integer n then show_int n else number e v)
      | _ \<Rightarrow> number e v)"

text \<open>
  \<open>util.format(f, args...)\<close> for the directives the script's templates use: \<open>%s\<close> and
  \<open>%d\<close> consume an argument, \<open>%%\<close> is a percent sign, a directive with no argument
  left stays as it is, arguments left over are appended after a space.
\<close>

fun util_format :: "env \<Rightarrow> string \<Rightarrow> jsval list \<Rightarrow> string" where
  "util_format e [] args = concat (map (\<lambda>a. CHR '' '' # format_s e a) args)"
| "util_format e [c] args = c # util_format e [] args"
| "util_format e (c # d # f) args =
     (if c = CHR ''%'' \<and> d = CHR ''%'' then CHR ''%'' # util_format e f args
      else if c = CHR ''%'' \<and> d = CHR ''s'' \<and> args \<noteq> []
        then format_s e (hd args) @ util_format e f (tl args)
      else if c = CHR ''%'' \<and> d = CHR ''d'' \<and> args \<noteq> []
        then format_d e (hd args) @ util_format e f (tl args)
      else c # util_format e (d # f) args)"

subsection \<open>Constants of the script\<close>

definition CMD_START_VM :: string where
  "CMD_START_VM = ''vboxmanage startvm %s --type headless''"

definition CMD_STOP_VM :: string where
  "CMD_STOP_VM = ''vboxmanage controlvm %s poweroff''"

definition CMD_MOUNT_VM :: string where
  "CMD_MOUNT_VM = ''sshfs -p %d %s@%s:%s %s''"

definition CMD_UNMOUNT_VM :: string where
  "CMD_UNMOUNT_VM = ''umount -f %s''"

definition MOUNT_DELAY :: jsval where
  "MOUNT_DELAY = JNum 10"

subsection \<open>Helpers of the script\<close>

text \<open>\<open>process.env.HOME || process.env.USERPROFILE\<close>: the first that is set and not empty.\<close>

definition getUserHome :: "env \<Rightarrow> string option" where
  "getUserHome e =
     (case HOME e of
        Some h \<Rightarrow> (if h \<noteq> [] then Some h else USERPROFILE e)
      | None \<Rightarrow> USERPROFILE e)"

text \<open>\<open>getUserHome() + '/vvm.config.json'\<close>; an undefined home concatenates as its name.\<close>

definition configFilePath :: "env \<Rightarrow> string" where
  "configFilePath e =
     (case getUserHome e of Some h \<Rightarrow> h | None \<Rightarrow> ''undefined'') @ ''/vvm.config.json''"

text \<open>
  \<open>makeErrorMsg(error, val)\<close>: the detail is appended when \<open>val\<close> is truthy, that is,
  given and not the empty string.
\<close>

definition makeErrorMsg :: "string \<Rightarrow> string option \<Rightarrow> styled" where
  "makeErrorMsg err val =
     chalk UnderlineRed ''ERROR'' @ chalk Red ('': '' @ err) @
     (case val of
        Some v \<Rightarrow> (if v \<noteq> [] then chalk Magenta ('' '' @ v) else [])
      | None \<Rightarrow> [])"

definition isMountableVM :: "jsval \<Rightarrow> bool" where
  "isMountableVM vm = (has vm ''username'' \<and> has vm ''mount_point_host'')"

text \<open>\<open>error !== null && error['code'] == 1\<close>; no symbolic error name converts to 1.\<close>

fun code_is_1 :: "err_code \<Rightarrow> bool" where
  "code_is_1 (Exit n) = (n = 1)"
| "code_is_1 (Errno s) = False"
| "code_is_1 NoCode = False"

definition is_failure :: "exec_error option \<Rightarrow> bool" where
  "is_failure err = (case err of None \<Rightarrow> False | Some x \<Rightarrow> code_is_1 (code x))"

text \<open>\<open>if (s !== null) console.log(chalk.<style>(s))\<close>\<close>

definition log_output :: "style \<Rightarrow> string option \<Rightarrow> trace" where
  "log_output st s = (case s of None \<Rightarrow> [] | Some x \<Rightarrow> [Log (chalk st x)])"

text \<open>
  A continuation works on the record as it is when the continuation runs and gives the
  events it causes and the record it leaves.
  \<open>if (callback && _.isFunction(callback)) callback()\<close>:
\<close>

type_synonym callback = "(jsval \<Rightarrow> trace \<times> jsval) option"

definition run_callback :: "callback \<Rightarrow> jsval \<Rightarrow> trace \<times> jsval" where
  "run_callback callback vm = (case callback of None \<Rightarrow> ([], vm) | Some f \<Rightarrow> f vm)"

text \<open>\<open>delay * 1000\<close>\<close>

definition times_1000 :: "env \<Rightarrow> jsval \<Rightarrow> jsval" where
  "times_1000 e delay =
     (case delay of
        JNum n \<Rightarrow> (if safe_integer (n * 1000) then JNum (n * 1000) else times e delay 1000)
      | _ \<Rightarrow> times e delay 1000)"

subsection \<open>The four runners\<close>

definition startVM :: "env \<Rightarrow> jsval \<Rightarrow> callback \<Rightarrow> trace \<times> jsval" where
  "startVM e vm callback =
     (let cmd = util_format e CMD_START_VM [get vm ''name''] in
      case exec e cmd of
        None \<Rightarrow> ([Exec cmd], vm)
      | Some r \<Rightarrow>
          (let out = [Exec cmd] @ log_output Gray (stdout r) @ log_output Red (stderr r) in
           if is_failure (error r)
           then (out @ [LogError (makeErrorMsg ''Failed to start VM'' None)], vm)
           else (let (t, vm') = run_callback callback vm
                 in (out @ [Log (chalk Green ''Yo! VM is up and running.'')] @ t, vm'))))"

definition stopVM :: "env \<Rightarrow> jsval \<Rightarrow> trace \<times> jsval" where
  "stopVM e vm =
     (let cmd = util_format e CMD_STOP_VM [get vm ''name''];
          out = [Log (chalk Gray ''Stopping VM...''), Exec cmd] in
      case exec e cmd of
        None \<Rightarrow> (out, vm)
      | Some r \<Rightarrow>
          (if is_failure (error r)
           then (out @ log_output Red (stderr r) @
                 [LogError (makeErrorMsg ''Failed to stop VM'' None)], vm)
           else (out @ log_output Gray (stderr r) @ [Log (chalk Green ''Bye!'')], vm)))"

text \<open>
  \<open>mountVM\<close> writes the three defaults into the record, builds the command from the
  record, and only then sets the timer whose expiry runs the command.
\<close>

definition mountVM :: "env \<Rightarrow> jsval \<Rightarrow> trace \<times> jsval" where
  "mountVM e vm0 =
     (let vm1 = (if \<not> has vm0 ''ssh_port'' then set_prop vm0 ''ssh_port'' (JNum 22) else vm0);
          vm2 = (if \<not> has vm1 ''hostname''
                 then set_prop vm1 ''hostname'' (JStr ''localhost'') else vm1);
          vm = (if \<not> has vm2 ''mount_point_remote''
                then set_prop vm2 ''mount_point_remote''
                       (JStr (util_format e ''/home/%s/'' [get vm2 ''username'']))
                else vm2);
          cmd = util_format e CMD_MOUNT_VM
                  [get vm ''ssh_port'', get vm ''username'', get vm ''hostname'',
                   get vm ''mount_point_remote'', get vm ''mount_point_host''];
          delay = (if has vm ''mount_delay'' then get vm ''mount_delay'' else MOUNT_DELAY);
          out = [Log (chalk Gray ''Mounting VM...''), SetTimeout (times_1000 e delay), Exec cmd]
      in case exec e cmd of
           None \<Rightarrow> (out, vm)
         | Some r \<Rightarrow>
             (if is_failure (error r)
              then (out @ log_output Red (stderr r) @
                    [LogError (makeErrorMsg ''Failed to mount VM'' None)], vm)
              else (out @ log_output Red (stderr r) @
                    [Log (chalk Gray ''VM mounted at '' @
                          chalk Bold (case get vm ''mount_point_host'' of
                                        JStr s \<Rightarrow> s
                                      | v \<Rightarrow> chalk_text e v))], vm)))"

definition unmountVM :: "env \<Rightarrow> jsval \<Rightarrow> callback \<Rightarrow> trace \<times> jsval" where
  "unmountVM e vm callback =
     (let cmd = util_format e CMD_UNMOUNT_VM [get vm ''mount_point_host''];
          out = [Log (chalk Gray ''Unmounting VM...''), Exec cmd] in
      case exec e cmd of
        None \<Rightarrow> (out, vm)
      | Some r \<Rightarrow>
          (let (t, vm') = run_callback callback vm in
           (out @ log_output Red (stderr r) @
            (if is_failure (error r)
             then [LogError (makeErrorMsg ''Failed to unmount VM'' None)]
             else [Log (chalk Gray ''VM has been unmounted.'')]) @ t, vm')))"

definition startAndMountVM :: "env \<Rightarrow> jsval \<Rightarrow> trace \<times> jsval" where
  "startAndMountVM e vm = startVM e vm (Some (mountVM e))"

definition unmountAndStopVM :: "env \<Rightarrow> jsval \<Rightarrow> trace \<times> jsval" where
  "unmountAndStopVM e vm = unmountVM e vm (Some (stopVM e))"

subsection \<open>The command handler\<close>

text \<open>Lines 50 to 77: the branch on the operation, once the record is known to have a name.\<close>

definition dispatch :: "env \<Rightarrow> string \<Rightarrow> jsval \<Rightarrow> trace \<times> jsval" where
  "dispatch e operation vm =
     (if operation = ''start'' then
        (if isMountableVM vm then startAndMountVM e vm else startVM e vm None)
      else if operation = ''stop'' then
        (if isMountableVM vm then unmountAndStopVM e vm else stopVM e vm)
      else if operation = ''mount'' then
        (if \<not> isMountableVM vm
         then ([LogError (makeErrorMsg ''Missing mount config.'' None)], vm)
         else mountVM e vm)
      else if operation = ''unmount'' then
        (if \<not> isMountableVM vm
         then ([LogError (makeErrorMsg ''Missing mount config.'' None)], vm)
         else unmountVM e vm None)
      else ([], vm))"

text \<open>A property key is a string: an omitted \<open>[vm]\<close> argument is \<open>undefined\<close> and names the
  property \<open>undefined\<close>.\<close>

definition prop_key :: "string option \<Rightarrow> string" where
  "prop_key vmName = (case vmName of Some n \<Rightarrow> n | None \<Rightarrow> ''undefined'')"

text \<open>
  \<open>program.action(function (operation, vmName) ...)\<close>. The result is the trace of the run
  and the final value of the global \<open>VMS\<close>, which starts as \<open>null\<close>. The record \<open>vm\<close> is
  the object \<open>VMS[vmName]\<close> itself, so what a runner leaves in it is written back.
\<close>

definition action :: "env \<Rightarrow> string \<Rightarrow> string option \<Rightarrow> trace \<times> jsval" where
  "action e operation vmName =
     (if operation \<notin> set [''start'', ''stop'', ''mount'', ''unmount'']
      then ([LogError (makeErrorMsg ''Invalid operation'' (Some operation))], JNull)
      else
        (let path = configFilePath e in
         if \<not> fileExists e path
         then ([FileExists path,
                LogError (makeErrorMsg ''Could not find config file '' (Some path))], JNull)
         else
           (let VMS = readFileSync e path in
            if falsy VMS
            then ([FileExists path, ReadFile path,
                   LogError (makeErrorMsg ''Failed to parse config file '' (Some path))], VMS)
            else if \<not> has VMS (prop_key vmName)
            then ([FileExists path, ReadFile path,
                   LogError (makeErrorMsg ''No config available for'' vmName)], VMS)
            else
              (let vm = get VMS (prop_key vmName) in
               if \<not> has vm ''name''
               then ([FileExists path, ReadFile path,
                      LogError (makeErrorMsg ''Incorrect config - VM name missing'' None)], VMS)
               else
                 (let (t, vm') = dispatch e operation vm
                  in ([FileExists path, ReadFile path] @ t,
                      set_prop VMS (prop_key vmName) vm'))))))"

subsection \<open>Observations on a trace\<close>

text \<open>The external actions of a run: the child processes it starts and the timers it sets.\<close>

fun external :: "event \<Rightarrow> bool" where
  "external (Exec c) = True"
| "external (SetTimeout d) = True"
| "external ev = False"

subsection \<open>The example configuration of the specification\<close>

definition dev_record :: jsval where
  "dev_record =
     JObj [(''name'', JStr ''dev-vm''), (''username'', JStr ''alice''),
           (''mount_point_host'', JStr ''/mnt/dev'')]"

definition bare_record :: jsval where
  "bare_record = JObj [(''name'', JStr ''box''), (''username'', JStr ''bob'')]"

definition dev_config :: jsval where
  "dev_config = JObj [(''dev'', dev_record), (''bare'', bare_record)]"

text \<open>A world where the configuration is in place and every child exits with \<open>code\<close>.\<close>

definition dev_env :: "exec_error option \<Rightarrow> env" where
  "dev_env err =
     \<lparr> HOME = Some ''/home/u'', USERPROFILE = None,
       fileExists = (\<lambda>p. p = ''/home/u/vvm.config.json''),
       readFileSync = (\<lambda>p. if p = ''/home/u/vvm.config.json'' then dev_config else JNull),
       exec = (\<lambda>c. Some \<lparr> error = err, stdout = Some [], stderr = Some [] \<rparr>),
       inspect = (\<lambda>v. ''?''), number = (\<lambda>v. ''NaN''), chalk_text = (\<lambda>v. ''?''),
       times = (\<lambda>v n. JUndefined) \<rparr>"

text \<open>A record that sets every optional field, and a configuration holding it.\<close>

definition tuned_record :: jsval where
  "tuned_record =
     JObj [(''name'', JStr ''dev-vm''), (''username'', JStr ''alice''),
           (''mount_point_host'', JStr ''/mnt/dev''), (''ssh_port'', JNum 2222),
           (''hostname'', JStr ''10.0.0.5''), (''mount_point_remote'', JStr ''/srv/www''),
           (''mount_delay'', JNum 5)]"

definition tuned_config :: jsval where
  "tuned_config = JObj [(''tuned'', tuned_record)]"

section \<open>Properties of the embedding\<close>

subsection \<open>The command templates\<close>

text \<open>What \<open>util.format\<close> makes of each template of the script.\<close>

lemma format_start: "util_format e CMD_START_VM [a] = ''vboxmanage startvm '' @ format_s e a @ '' --type headless''"
  by (simp add: CMD_START_VM_def)

lemma format_stop: "util_format e CMD_STOP_VM [a] = ''vboxmanage controlvm '' @ format_s e a @ '' poweroff''"
  by (simp add: CMD_STOP_VM_def)

lemma format_mount: "util_format e CMD_MOUNT_VM [p, u, h, r, m] =
    ''sshfs -p '' @ format_d e p @ '' '' @ format_s e u @ ''@'' @ format_s e h @ '':'' @
    format_s e r @ '' '' @ format_s e m"
  by (simp add: CMD_MOUNT_VM_def)

lemma format_unmount: "util_format e CMD_UNMOUNT_VM [a] = ''umount -f '' @ format_s e a"
  by (simp add: CMD_UNMOUNT_VM_def)

lemma format_home: "util_format e ''/home/%s/'' [a] = ''/home/'' @ format_s e a @ ''/''"
  by simp

subsection \<open>Property keys\<close>

text \<open>
  An index key consists of decimal digits, so no field name of a record is an index, and
  only an object can own \<open>name\<close> or \<open>username\<close>.
\<close>

lemma digits_chars: "set (digits n) \<subseteq> set ''0123456789''"
proof (induction n rule: digits.induct)
  case (1 n)
  have d: "''0123456789'' ! m \<in> set ''0123456789''" if "m < 10" for m
    using that by (intro nth_mem) simp
  show ?case
  proof (cases "n < 10")
    case True
    then show ?thesis using d [of n] by (subst digits.simps) simp
  next
    case False
    have "n mod 10 < 10" by simp
    from d [OF this] 1 [OF False] False show ?thesis
      by (subst digits.simps) simp
  qed
qed

lemma digits_neq: "c \<in> set k \<Longrightarrow> c \<notin> set ''0123456789'' \<Longrightarrow> digits i \<noteq> k"
  using digits_chars [of i] by auto

lemma has_field_obj:
  assumes "has vm k" and "c \<in> set k" and "c \<notin> set ''0123456789''" and "k \<noteq> ''length''"
  shows "\<exists>kvs. vm = JObj kvs"
proof -
  have "k \<notin> digits ` S" for S
    using digits_neq [OF assms(2,3)] by auto
  with assms(1,4) show ?thesis by (cases vm) simp_all
qed

lemma mountable_obj: "isMountableVM vm \<Longrightarrow> \<exists>kvs. vm = JObj kvs"
  using has_field_obj [of vm "''username''" "CHR ''u''"] by (simp add: isMountableVM_def)

subsection \<open>Reading and writing properties\<close>

lemma map_of_update_prop: "map_of (update_prop k v kvs) = (map_of kvs)(k \<mapsto> v)"
  by (induction kvs) (auto simp: fun_eq_iff)

lemma keys_update_prop: "fst ` set (update_prop k v kvs) = insert k (fst ` set kvs)"
  by (induction kvs) auto

lemma update_prop_same: "map_of kvs k = Some v \<Longrightarrow> update_prop k v kvs = kvs"
  by (induction kvs) (auto split: if_splits)

lemma find_index_bound: "find P [0..<n] = Some i \<Longrightarrow> i < n"
  by (auto simp: find_Some_iff)

lemma find_length: "find (\<lambda>i. digits i = ''length'') ns = None"
  using digits_neq [of "CHR ''l''" "''length''"] by (simp add: find_None_iff)

lemma set_prop_same: "has VMS k \<Longrightarrow> set_prop VMS k (get VMS k) = VMS"
proof (cases VMS)
  case (JObj kvs)
  assume "has VMS k"
  with JObj have "map_of kvs k \<noteq> None"
    by (simp add: map_of_eq_None_iff)
  then obtain v where "map_of kvs k = Some v" by blast
  with JObj show ?thesis by (simp add: update_prop_same)
next
  case (JArr xs)
  then show ?thesis by (auto simp: find_length split: option.splits dest: find_index_bound)
qed simp_all

subsection \<open>The failure test\<close>

lemma is_failure_iff: "is_failure err = (err = Some (Error (Exit 1)))"
proof (cases err)
  case None
  then show ?thesis by (simp add: is_failure_def)
next
  case (Some x)
  then show ?thesis
    by (cases x; cases "code x") (auto simp: is_failure_def)
qed

subsection \<open>The handler up to the dispatch\<close>

text \<open>
  When the operation is valid, the configuration loads and the requested record has a
  name, a run is the two file-system accesses followed by the run of the branch.
\<close>

lemma action_dispatch:
  assumes "operation \<in> set [''start'', ''stop'', ''mount'', ''unmount'']"
    and "fileExists e (configFilePath e)"
    and "\<not> falsy (readFileSync e (configFilePath e))"
    and "has (readFileSync e (configFilePath e)) (prop_key vmName)"
    and "has (get (readFileSync e (configFilePath e)) (prop_key vmName)) ''name''"
  shows "action e operation vmName =
    ([FileExists (configFilePath e), ReadFile (configFilePath e)] @
       fst (dispatch e operation (get (readFileSync e (configFilePath e)) (prop_key vmName))),
     set_prop (readFileSync e (configFilePath e)) (prop_key vmName)
       (snd (dispatch e operation (get (readFileSync e (configFilePath e)) (prop_key vmName)))))"
  using assms by (simp add: action_def Let_def split_beta)

subsection \<open>The runners\<close>

lemma external_log_output [simp]: "filter external (log_output st s) = []"
  by (simp add: log_output_def split: option.splits)

lemma stopVM_external:
  "filter external (fst (stopVM e vm)) =
     [Exec (''vboxmanage controlvm '' @ format_s e (get vm ''name'') @ '' poweroff'')]"
  by (simp add: stopVM_def Let_def format_stop split: option.splits)


subsection \<open>Writing a default\<close>

lemma default_obj:
  "\<exists>kvs'. (if \<not> has (JObj kvs) k then set_prop (JObj kvs) k v else JObj kvs) = JObj kvs'
     \<and> (\<forall>f. has (JObj kvs') f = (f = k \<or> has (JObj kvs) f))
     \<and> (\<forall>f. get (JObj kvs') f = (if f = k \<and> \<not> has (JObj kvs) k then v else get (JObj kvs) f))"
  by (auto simp: keys_update_prop map_of_update_prop)

lemma find_index_None: "k \<notin> set (map digits [0..<n]) \<Longrightarrow> find (\<lambda>i. digits i = k) [0..<n] = None"
  by (auto simp: find_None_iff)



subsection \<open>The Mount step\<close>

lemma mountVM_unfold:
  assumes "vm1 = (if \<not> has vm0 ''ssh_port'' then set_prop vm0 ''ssh_port'' (JNum 22) else vm0)"
    and "vm2 = (if \<not> has vm1 ''hostname''
                then set_prop vm1 ''hostname'' (JStr ''localhost'') else vm1)"
    and "vm = (if \<not> has vm2 ''mount_point_remote''
               then set_prop vm2 ''mount_point_remote''
                      (JStr (util_format e ''/home/%s/'' [get vm2 ''username'']))
               else vm2)"
    and "cmd = util_format e CMD_MOUNT_VM
                 [get vm ''ssh_port'', get vm ''username'', get vm ''hostname'',
                  get vm ''mount_point_remote'', get vm ''mount_point_host'']"
    and "delay = (if has vm ''mount_delay'' then get vm ''mount_delay'' else MOUNT_DELAY)"
    and "out = [Log (chalk Gray ''Mounting VM...''), SetTimeout (times_1000 e delay), Exec cmd]"
  shows "mountVM e vm0 =
    (case exec e cmd of
       None \<Rightarrow> (out, vm)
     | Some r \<Rightarrow>
         (if is_failure (error r)
          then (out @ log_output Red (stderr r) @
                [LogError (makeErrorMsg ''Failed to mount VM'' None)], vm)
          else (out @ log_output Red (stderr r) @
                [Log (chalk Gray ''VM mounted at '' @
                      chalk Bold (case get vm ''mount_point_host'' of
                                    JStr s \<Rightarrow> s
                                  | v \<Rightarrow> chalk_text e v))], vm)))"
  unfolding assms mountVM_def Let_def by (rule refl)

lemma mountVM_snd:
  assumes "vm1 = (if \<not> has vm0 ''ssh_port'' then set_prop vm0 ''ssh_port'' (JNum 22) else vm0)"
    and "vm2 = (if \<not> has vm1 ''hostname''
                then set_prop vm1 ''hostname'' (JStr ''localhost'') else vm1)"
    and "vm = (if \<not> has vm2 ''mount_point_remote''
               then set_prop vm2 ''mount_point_remote''
                      (JStr (util_format e ''/home/%s/'' [get vm2 ''username'']))
               else vm2)"
  shows "snd (mountVM e vm0) = vm"
  by (simp add: mountVM_unfold [OF assms refl refl refl] split: option.splits)


lemma get_absent: "\<not> has vm f \<Longrightarrow> get vm f = JUndefined"
proof (cases vm)
  case (JObj kvs)
  assume "\<not> has vm f"
  with JObj have "map_of kvs f = None" by (simp add: map_of_eq_None_iff)
  with JObj show ?thesis by simp
next
  case (JArr xs)
  assume "\<not> has vm f"
  with JArr show ?thesis by (simp add: find_index_None)
next
  case (JStr s)
  assume "\<not> has vm f"
  with JStr show ?thesis by (simp add: find_index_None)
qed simp_all

lemma mountVM_defaults:
  "has (snd (mountVM e (JObj kvs))) f =
     (has (JObj kvs) f \<or> f \<in> {''ssh_port'', ''hostname'', ''mount_point_remote''})
   \<and> get (snd (mountVM e (JObj kvs))) f =
     (if has (JObj kvs) f then get (JObj kvs) f
      else if f = ''ssh_port'' then JNum 22
      else if f = ''hostname'' then JStr ''localhost''
      else if f = ''mount_point_remote''
        then JStr (''/home/'' @ format_s e (get (JObj kvs) ''username'') @ ''/'')
      else JUndefined)"
proof -
  obtain kvs1 where vm1: "(if \<not> has (JObj kvs) ''ssh_port''
        then set_prop (JObj kvs) ''ssh_port'' (JNum 22) else JObj kvs) = JObj kvs1"
    and h1: "\<And>f. has (JObj kvs1) f = (f = ''ssh_port'' \<or> has (JObj kvs) f)"
    and g1: "\<And>f. get (JObj kvs1) f =
        (if f = ''ssh_port'' \<and> \<not> has (JObj kvs) ''ssh_port'' then JNum 22 else get (JObj kvs) f)"
    using default_obj [of kvs "''ssh_port''" "JNum 22"] by blast
  obtain kvs2 where vm2: "(if \<not> has (JObj kvs1) ''hostname''
        then set_prop (JObj kvs1) ''hostname'' (JStr ''localhost'') else JObj kvs1) = JObj kvs2"
    and h2: "\<And>f. has (JObj kvs2) f = (f = ''hostname'' \<or> has (JObj kvs1) f)"
    and g2: "\<And>f. get (JObj kvs2) f =
        (if f = ''hostname'' \<and> \<not> has (JObj kvs1) ''hostname'' then JStr ''localhost''
         else get (JObj kvs1) f)"
    using default_obj [of kvs1 "''hostname''" "JStr ''localhost''"] by blast
  obtain kvs3 where vm3: "(if \<not> has (JObj kvs2) ''mount_point_remote''
        then set_prop (JObj kvs2) ''mount_point_remote''
               (JStr (util_format e ''/home/%s/'' [get (JObj kvs2) ''username'']))
        else JObj kvs2) = JObj kvs3"
    and h3: "\<And>f. has (JObj kvs3) f = (f = ''mount_point_remote'' \<or> has (JObj kvs2) f)"
    and g3: "\<And>f. get (JObj kvs3) f =
        (if f = ''mount_point_remote'' \<and> \<not> has (JObj kvs2) ''mount_point_remote''
         then JStr (util_format e ''/home/%s/'' [get (JObj kvs2) ''username''])
         else get (JObj kvs2) f)"
    using default_obj [of kvs2 "''mount_point_remote''"
        "JStr (util_format e ''/home/%s/'' [get (JObj kvs2) ''username''])"] by blast
  have s: "snd (mountVM e (JObj kvs)) = JObj kvs3"
    using mountVM_snd [OF vm1 [symmetric] vm2 [symmetric] vm3 [symmetric]] .
  have u: "get (JObj kvs2) ''username'' = get (JObj kvs) ''username''"
    by (simp add: g2 g1 del: get.simps has.simps)
  show ?thesis
    unfolding s h3 g3 h2 g2 h1 g1 u format_home
    by (auto simp: get_absent simp del: get.simps has.simps)
qed

lemma mountVM_trace:
  assumes "vm = snd (mountVM e vm0)"
    and "cmd = util_format e CMD_MOUNT_VM
                 [get vm ''ssh_port'', get vm ''username'', get vm ''hostname'',
                  get vm ''mount_point_remote'', get vm ''mount_point_host'']"
  shows "fst (mountVM e vm0) =
    [Log (chalk Gray ''Mounting VM...''),
     SetTimeout (times_1000 e (if has vm ''mount_delay'' then get vm ''mount_delay''
                               else MOUNT_DELAY)),
     Exec cmd] @
    (case exec e cmd of
       None \<Rightarrow> []
     | Some r \<Rightarrow>
         log_output Red (stderr r) @
         [if is_failure (error r) then LogError (makeErrorMsg ''Failed to mount VM'' None)
          else Log (chalk Gray ''VM mounted at '' @
                    chalk Bold (case get vm ''mount_point_host'' of
                                  JStr s \<Rightarrow> s | v \<Rightarrow> chalk_text e v))])"
proof -
  define vm1 where "vm1 = (if \<not> has vm0 ''ssh_port'' then set_prop vm0 ''ssh_port'' (JNum 22) else vm0)"
  define vm2 where "vm2 = (if \<not> has vm1 ''hostname''
                then set_prop vm1 ''hostname'' (JStr ''localhost'') else vm1)"
  define vm3 where "vm3 = (if \<not> has vm2 ''mount_point_remote''
               then set_prop vm2 ''mount_point_remote''
                      (JStr (util_format e ''/home/%s/'' [get vm2 ''username'']))
               else vm2)"
  have "vm = vm3"
    using mountVM_snd [OF vm1_def vm2_def vm3_def] assms(1) by simp
  with assms(2) have c: "cmd = util_format e CMD_MOUNT_VM
                 [get vm3 ''ssh_port'', get vm3 ''username'', get vm3 ''hostname'',
                  get vm3 ''mount_point_remote'', get vm3 ''mount_point_host'']"
    by simp
  show ?thesis
    unfolding mountVM_unfold [OF vm1_def vm2_def vm3_def c refl refl] \<open>vm = vm3\<close>
    by (cases "exec e cmd") simp_all
qed

lemma mountVM_external:
  assumes "port = (if has (JObj kvs) ''ssh_port'' then get (JObj kvs) ''ssh_port'' else JNum 22)"
    and "host = (if has (JObj kvs) ''hostname'' then get (JObj kvs) ''hostname''
                 else JStr ''localhost'')"
    and "remote = (if has (JObj kvs) ''mount_point_remote''
                   then get (JObj kvs) ''mount_point_remote''
                   else JStr (''/home/'' @ format_s e (get (JObj kvs) ''username'') @ ''/''))"
    and "timer = (if has (JObj kvs) ''mount_delay''
                  then times_1000 e (get (JObj kvs) ''mount_delay'') else JNum 10000)"
    and "has (JObj kvs) ''username''" and "has (JObj kvs) ''mount_point_host''"
  shows "filter external (fst (mountVM e (JObj kvs))) =
     [SetTimeout timer,
      Exec (''sshfs -p '' @ format_d e port @ '' '' @
            format_s e (get (JObj kvs) ''username'') @ ''@'' @ format_s e host @ '':'' @
            format_s e remote @ '' '' @ format_s e (get (JObj kvs) ''mount_point_host''))]"
proof -
  define vm where "vm = snd (mountVM e (JObj kvs))"
  have g: "get vm ''ssh_port'' = port" "get vm ''hostname'' = host"
    "get vm ''mount_point_remote'' = remote"
    "get vm ''username'' = get (JObj kvs) ''username''"
    "get vm ''mount_point_host'' = get (JObj kvs) ''mount_point_host''"
    "has vm ''mount_delay'' = has (JObj kvs) ''mount_delay''"
    "get vm ''mount_delay'' = get (JObj kvs) ''mount_delay''"
    unfolding vm_def assms(1-3)
    using assms(5,6) mountVM_defaults [of e kvs]
    by (simp_all add: get_absent del: get.simps has.simps)
  have t: "times_1000 e MOUNT_DELAY = JNum 10000"
    by (simp add: times_1000_def MOUNT_DELAY_def safe_integer_def)
  show ?thesis
    unfolding mountVM_trace [OF vm_def refl] g format_mount assms(4)
    by (cases "exec e (''sshfs -p '' @ format_d e port @ '' '' @
            format_s e (get (JObj kvs) ''username'') @ ''@'' @ format_s e host @ '':'' @
            format_s e remote @ '' '' @ format_s e (get (JObj kvs) ''mount_point_host''))")
       (simp_all add: t del: get.simps has.simps)
qed

subsection \<open>Traces of the other runners\<close>

lemma startVM_trace:
  assumes "cmd = ''vboxmanage startvm '' @ format_s e (get vm ''name'') @ '' --type headless''"
  shows "fst (startVM e vm cb) =
    Exec cmd #
    (case exec e cmd of
       None \<Rightarrow> []
     | Some r \<Rightarrow>
         log_output Gray (stdout r) @ log_output Red (stderr r) @
         (if is_failure (error r) then [LogError (makeErrorMsg ''Failed to start VM'' None)]
          else Log (chalk Green ''Yo! VM is up and running.'') # fst (run_callback cb vm)))"
  unfolding assms
  by (simp add: startVM_def Let_def format_start split_beta split: option.splits)

lemma startVM_snd:
  assumes "cmd = ''vboxmanage startvm '' @ format_s e (get vm ''name'') @ '' --type headless''"
  shows "snd (startVM e vm cb) =
    (case exec e cmd of
       None \<Rightarrow> vm
     | Some r \<Rightarrow> if is_failure (error r) then vm else snd (run_callback cb vm))"
  unfolding assms
  by (simp add: startVM_def Let_def format_start split_beta split: option.splits)

lemma stopVM_trace:
  assumes "cmd = ''vboxmanage controlvm '' @ format_s e (get vm ''name'') @ '' poweroff''"
  shows "fst (stopVM e vm) =
    [Log (chalk Gray ''Stopping VM...''), Exec cmd] @
    (case exec e cmd of
       None \<Rightarrow> []
     | Some r \<Rightarrow>
         (if is_failure (error r)
          then log_output Red (stderr r) @ [LogError (makeErrorMsg ''Failed to stop VM'' None)]
          else log_output Gray (stderr r) @ [Log (chalk Green ''Bye!'')]))"
  unfolding assms
  by (simp add: stopVM_def Let_def format_stop split: option.splits)

lemma unmountVM_trace:
  assumes "cmd = ''umount -f '' @ format_s e (get vm ''mount_point_host'')"
  shows "fst (unmountVM e vm cb) =
    [Log (chalk Gray ''Unmounting VM...''), Exec cmd] @
    (case exec e cmd of
       None \<Rightarrow> []
     | Some r \<Rightarrow>
         log_output Red (stderr r) @
         [if is_failure (error r) then LogError (makeErrorMsg ''Failed to unmount VM'' None)
          else Log (chalk Gray ''VM has been unmounted.'')] @
         fst (run_callback cb vm))"
  unfolding assms
  by (simp add: unmountVM_def Let_def format_unmount split_beta split: option.splits)


lemma not_in_log_output:
  "LogError m \<notin> set (log_output st s)"
  "st' \<noteq> st \<Longrightarrow> Log (chalk st' x) \<notin> set (log_output st s)"
  "Log (chalk st' x @ chalk st'' y) \<notin> set (log_output st s)"
  by (simp_all add: log_output_def chalk_def split: option.splits)

subsection \<open>The final configuration\<close>





subsection \<open>The example world\<close>

lemma dev_path: "configFilePath (dev_env err) = ''/home/u/vvm.config.json''"
  by (simp add: configFilePath_def getUserHome_def dev_env_def)

lemma dev_mountable: "isMountableVM dev_record"
  by (simp add: isMountableVM_def dev_record_def)

section \<open>The claims\<close>

text \<open>
  Claim C1. On a mountable record the \<open>start\<close> branch first issues the Start command for
  the record's name, whatever happens afterwards. If Start completes and does not report
  failure, the external actions of the run are, in this order: the Start command, a timer
  and the Mount command. The timer is 10000 milliseconds when \<open>mount_delay\<close> is absent and
  \<open>n * 1000\<close> milliseconds when it is the number \<open>n\<close> (the product being a safe integer).
  In the Mount command \<open>ssh_port\<close> is 22, \<open>hostname\<close> is \<open>localhost\<close> and
  \<open>mount_point_remote\<close> is \<open>/home/<username>/\<close> wherever the record lacks the field; with
  a numeric port and string fields the command is the template with the port in decimal
  and the strings as they are. The instances below run the example of the specification
  and a record that sets every optional field through the whole handler.
\<close>

theorem start_mountable_starts_then_mounts:
  assumes "isMountableVM vm"
    and "start_cmd = ''vboxmanage startvm '' @ format_s e (get vm ''name'') @ '' --type headless''"
    and "port = (if has vm ''ssh_port'' then get vm ''ssh_port'' else JNum 22)"
    and "host = (if has vm ''hostname'' then get vm ''hostname'' else JStr ''localhost'')"
    and "remote = (if has vm ''mount_point_remote'' then get vm ''mount_point_remote''
                   else JStr (''/home/'' @ format_s e (get vm ''username'') @ ''/''))"
    and "timer = (if has vm ''mount_delay'' then times_1000 e (get vm ''mount_delay'')
                  else JNum 10000)"
    and "mount_cmd = ''sshfs -p '' @ format_d e port @ '' '' @
            format_s e (get vm ''username'') @ ''@'' @ format_s e host @ '':'' @
            format_s e remote @ '' '' @ format_s e (get vm ''mount_point_host'')"
  shows "take 1 (fst (dispatch e ''start'' vm)) = [Exec start_cmd]
    \<and> (\<forall>r. exec e start_cmd = Some r \<and> error r \<noteq> Some (Error (Exit 1)) \<longrightarrow>
          filter external (fst (dispatch e ''start'' vm)) =
            [Exec start_cmd, SetTimeout timer, Exec mount_cmd])
    \<and> (\<forall>n. has vm ''mount_delay'' \<and> get vm ''mount_delay'' = JNum n
            \<and> \<bar>n * 1000\<bar> < 9007199254740992 \<longrightarrow>
          timer = JNum (n * 1000))
    \<and> (\<forall>nm. get vm ''name'' = JStr nm \<longrightarrow>
          start_cmd = ''vboxmanage startvm '' @ nm @ '' --type headless'')
    \<and> (\<forall>u. \<not> has vm ''mount_point_remote'' \<and> get vm ''username'' = JStr u \<longrightarrow>
          remote = JStr (''/home/'' @ u @ ''/''))
    \<and> (\<forall>p u h rm mh. port = JNum p \<and> \<bar>p\<bar> < 9007199254740992
            \<and> get vm ''username'' = JStr u \<and> host = JStr h \<and> remote = JStr rm
            \<and> get vm ''mount_point_host'' = JStr mh \<longrightarrow>
          mount_cmd = ''sshfs -p '' @ show_int p @ '' '' @ u @ ''@'' @ h @ '':'' @ rm @
                      '' '' @ mh)"
proof -
  from assms(1) obtain kvs where vm: "vm = JObj kvs"
    using mountable_obj by blast
  have u: "has (JObj kvs) ''username''" and m: "has (JObj kvs) ''mount_point_host''"
    using assms(1) vm by (simp_all add: isMountableVM_def)
  have d: "dispatch e ''start'' vm = startVM e vm (Some (mountVM e))"
    using assms(1) by (simp add: dispatch_def startAndMountVM_def)
  have mt: "filter external (fst (mountVM e vm)) = [SetTimeout timer, Exec mount_cmd]"
    unfolding vm assms(7)
    by (rule mountVM_external [OF _ _ _ _ u m]) (simp_all only: assms(3-6) vm)
  have first: "take 1 (fst (dispatch e ''start'' vm)) = [Exec start_cmd]"
    unfolding d startVM_trace [OF assms(2)] by simp
  have rest: "filter external (fst (dispatch e ''start'' vm)) =
      [Exec start_cmd, SetTimeout timer, Exec mount_cmd]"
    if "exec e start_cmd = Some r" and "error r \<noteq> Some (Error (Exit 1))" for r
    unfolding d startVM_trace [OF assms(2)]
    using that mt by (simp add: is_failure_iff run_callback_def)
  have delay: "timer = JNum (n * 1000)"
    if "has vm ''mount_delay''" and "get vm ''mount_delay'' = JNum n"
      and "\<bar>n * 1000\<bar> < 9007199254740992" for n
    unfolding assms(6) using that by (simp add: times_1000_def safe_integer_def)
  have name: "start_cmd = ''vboxmanage startvm '' @ nm @ '' --type headless''"
    if "get vm ''name'' = JStr nm" for nm
    unfolding assms(2) using that by (simp add: format_s_def)
  have home: "remote = JStr (''/home/'' @ u @ ''/'')"
    if "\<not> has vm ''mount_point_remote''" and "get vm ''username'' = JStr u" for u
    unfolding assms(5) using that by (simp add: format_s_def)
  have cmd_text: "mount_cmd = ''sshfs -p '' @ show_int p @ '' '' @ u @ ''@'' @ h @ '':'' @ rm @
                      '' '' @ mh"
    if "port = JNum p" and "\<bar>p\<bar> < 9007199254740992" and "get vm ''username'' = JStr u"
      and "host = JStr h" and "remote = JStr rm" and "get vm ''mount_point_host'' = JStr mh"
    for p u h rm mh
    unfolding assms(7) using that by (simp add: format_s_def format_d_def safe_integer_def)
  from first rest delay name home cmd_text show ?thesis by blast
qed

theorem start_mountable_starts_then_mounts_witness:
  "filter external (fst (action (dev_env None) ''start'' (Some ''dev''))) =
     [Exec ''vboxmanage startvm dev-vm --type headless'',
      SetTimeout (JNum 10000),
      Exec ''sshfs -p 22 alice@localhost:/home/alice/ /mnt/dev'']
   \<and> filter external
       (fst (action ((dev_env None)\<lparr>readFileSync := \<lambda>p. tuned_config\<rparr>) ''start''
          (Some ''tuned''))) =
     [Exec ''vboxmanage startvm dev-vm --type headless'',
      SetTimeout (JNum 5000),
      Exec ''sshfs -p 2222 alice@10.0.0.5:/srv/www /mnt/dev'']"
proof -
  let ?e = "(dev_env None)\<lparr>readFileSync := \<lambda>p. tuned_config\<rparr>"
  have a: "fst (action (dev_env None) ''start'' (Some ''dev'')) =
      [FileExists ''/home/u/vvm.config.json'', ReadFile ''/home/u/vvm.config.json''] @
      fst (dispatch (dev_env None) ''start'' dev_record)"
    by (simp add: action_def dev_path Let_def split_beta prop_key_def)
       (simp add: dev_env_def dev_config_def dev_record_def)
  have p: "configFilePath ?e = ''/home/u/vvm.config.json''"
    by (simp add: configFilePath_def getUserHome_def dev_env_def)
  have b: "fst (action ?e ''start'' (Some ''tuned'')) =
      [FileExists ''/home/u/vvm.config.json'', ReadFile ''/home/u/vvm.config.json''] @
      fst (dispatch ?e ''start'' tuned_record)"
    by (simp add: action_def p Let_def split_beta prop_key_def)
       (simp add: dev_env_def tuned_config_def tuned_record_def)
  have x: "exec (dev_env None) c = Some \<lparr> error = None, stdout = Some [], stderr = Some [] \<rparr>"
    "exec ?e c = Some \<lparr> error = None, stdout = Some [], stderr = Some [] \<rparr>" for c
    by (simp_all add: dev_env_def)
  have t: "isMountableVM tuned_record"
    by (simp add: isMountableVM_def tuned_record_def)
  have one: "filter external (fst (dispatch (dev_env None) ''start'' dev_record)) =
     [Exec ''vboxmanage startvm dev-vm --type headless'',
      SetTimeout (JNum 10000),
      Exec ''sshfs -p 22 alice@localhost:/home/alice/ /mnt/dev'']"
    using start_mountable_starts_then_mounts
      [OF dev_mountable refl refl refl refl refl refl, where e = "dev_env None"]
    by (simp add: x dev_record_def format_s_def format_d_def safe_integer_def show_int_def
        digits.simps)
  have two: "filter external (fst (dispatch ?e ''start'' tuned_record)) =
     [Exec ''vboxmanage startvm dev-vm --type headless'',
      SetTimeout (JNum 5000),
      Exec ''sshfs -p 2222 alice@10.0.0.5:/srv/www /mnt/dev'']"
    using start_mountable_starts_then_mounts
      [OF t refl refl refl refl refl refl, where e = ?e]
    by (simp add: x tuned_record_def format_s_def format_d_def safe_integer_def times_1000_def
        show_int_def digits.simps)
  show ?thesis unfolding a b using one two by simp
qed

text \<open>
  Claim C2. For each of the four runners, once the child has completed with result \<open>r\<close>:
  the failure line is printed exactly when \<open>r\<close> carries an error whose code is the exit
  status 1, and the confirmation line exactly when it does not, so an error with any other
  code counts as success. The continuation of Start runs exactly when Start is not a
  failure; the continuation of Unmount runs in both cases.
\<close>

theorem failure_iff_exit_code_1:
  assumes "start_cmd = ''vboxmanage startvm '' @ format_s e (get vm ''name'') @ '' --type headless''"
    and "stop_cmd = ''vboxmanage controlvm '' @ format_s e (get vm ''name'') @ '' poweroff''"
    and "unmount_cmd = ''umount -f '' @ format_s e (get vm ''mount_point_host'')"
    and "vm' = snd (mountVM e vm)"
    and "mount_cmd = ''sshfs -p '' @ format_d e (get vm' ''ssh_port'') @ '' '' @
            format_s e (get vm' ''username'') @ ''@'' @ format_s e (get vm' ''hostname'') @
            '':'' @ format_s e (get vm' ''mount_point_remote'') @ '' '' @
            format_s e (get vm' ''mount_point_host'')"
    and "mounted = Log (chalk Gray ''VM mounted at '' @
            chalk Bold (case get vm' ''mount_point_host'' of JStr s \<Rightarrow> s | v \<Rightarrow> chalk_text e v))"
  shows "(\<forall>r. exec e start_cmd = Some r \<longrightarrow>
            (LogError (makeErrorMsg ''Failed to start VM'' None) \<in> set (fst (startVM e vm None)))
              = (error r = Some (Error (Exit 1)))
          \<and> (Log (chalk Green ''Yo! VM is up and running.'') \<in> set (fst (startVM e vm None)))
              = (error r \<noteq> Some (Error (Exit 1)))
          \<and> fst (startVM e vm (Some k)) =
              fst (startVM e vm None) @
              (if error r = Some (Error (Exit 1)) then [] else fst (k vm)))
    \<and> (\<forall>r. exec e stop_cmd = Some r \<longrightarrow>
            (LogError (makeErrorMsg ''Failed to stop VM'' None) \<in> set (fst (stopVM e vm)))
              = (error r = Some (Error (Exit 1)))
          \<and> (Log (chalk Green ''Bye!'') \<in> set (fst (stopVM e vm)))
              = (error r \<noteq> Some (Error (Exit 1))))
    \<and> (\<forall>r. exec e mount_cmd = Some r \<longrightarrow>
            (LogError (makeErrorMsg ''Failed to mount VM'' None) \<in> set (fst (mountVM e vm)))
              = (error r = Some (Error (Exit 1)))
          \<and> (mounted \<in> set (fst (mountVM e vm))) = (error r \<noteq> Some (Error (Exit 1))))
    \<and> (\<forall>r. exec e unmount_cmd = Some r \<longrightarrow>
            (LogError (makeErrorMsg ''Failed to unmount VM'' None) \<in> set (fst (unmountVM e vm None)))
              = (error r = Some (Error (Exit 1)))
          \<and> (Log (chalk Gray ''VM has been unmounted.'') \<in> set (fst (unmountVM e vm None)))
              = (error r \<noteq> Some (Error (Exit 1)))
          \<and> fst (unmountVM e vm (Some k)) = fst (unmountVM e vm None) @ fst (k vm))"
proof -
  have start: "(LogError (makeErrorMsg ''Failed to start VM'' None) \<in> set (fst (startVM e vm None)))
              = (error r = Some (Error (Exit 1)))
          \<and> (Log (chalk Green ''Yo! VM is up and running.'') \<in> set (fst (startVM e vm None)))
              = (error r \<noteq> Some (Error (Exit 1)))
          \<and> fst (startVM e vm (Some k)) =
              fst (startVM e vm None) @
              (if error r = Some (Error (Exit 1)) then [] else fst (k vm))"
    if "exec e start_cmd = Some r" for r
    unfolding startVM_trace [OF assms(1)] using that
    by (simp add: is_failure_iff run_callback_def not_in_log_output)
  have stop: "(LogError (makeErrorMsg ''Failed to stop VM'' None) \<in> set (fst (stopVM e vm)))
              = (error r = Some (Error (Exit 1)))
          \<and> (Log (chalk Green ''Bye!'') \<in> set (fst (stopVM e vm)))
              = (error r \<noteq> Some (Error (Exit 1)))"
    if "exec e stop_cmd = Some r" for r
    unfolding stopVM_trace [OF assms(2)] using that
    by (simp add: is_failure_iff not_in_log_output) (simp add: chalk_def)
  have mc: "mount_cmd = util_format e CMD_MOUNT_VM
                 [get vm' ''ssh_port'', get vm' ''username'', get vm' ''hostname'',
                  get vm' ''mount_point_remote'', get vm' ''mount_point_host'']"
    unfolding assms(5) format_mount ..
  have mount: "(LogError (makeErrorMsg ''Failed to mount VM'' None) \<in> set (fst (mountVM e vm)))
              = (error r = Some (Error (Exit 1)))
          \<and> (mounted \<in> set (fst (mountVM e vm))) = (error r \<noteq> Some (Error (Exit 1)))"
    if "exec e mount_cmd = Some r" for r
    unfolding mountVM_trace [OF assms(4) mc] assms(6) using that
    by (simp add: is_failure_iff not_in_log_output) (simp add: chalk_def)
  have unmount: "(LogError (makeErrorMsg ''Failed to unmount VM'' None) \<in> set (fst (unmountVM e vm None)))
              = (error r = Some (Error (Exit 1)))
          \<and> (Log (chalk Gray ''VM has been unmounted.'') \<in> set (fst (unmountVM e vm None)))
              = (error r \<noteq> Some (Error (Exit 1)))
          \<and> fst (unmountVM e vm (Some k)) = fst (unmountVM e vm None) @ fst (k vm)"
    if "exec e unmount_cmd = Some r" for r
    unfolding unmountVM_trace [OF assms(3)] using that
    by (simp add: is_failure_iff run_callback_def not_in_log_output) (simp add: chalk_def)
  from start stop mount unmount show ?thesis by blast
qed

theorem failure_iff_exit_code_1_witness:
  "Log (chalk Green ''Bye!'') \<in> set (fst (stopVM (dev_env (Some (Error (Exit 2)))) dev_record))
   \<and> LogError (makeErrorMsg ''Failed to start VM'' None)
       \<in> set (fst (startVM (dev_env (Some (Error (Exit 1)))) dev_record None))"
proof -
  have x: "exec (dev_env err) c = Some \<lparr> error = err, stdout = Some [], stderr = Some [] \<rparr>"
    for err c
    by (simp add: dev_env_def)
  show ?thesis
    using failure_iff_exit_code_1 [OF refl refl refl refl refl refl,
        where e = "dev_env (Some (Error (Exit 2)))" and vm = dev_record]
      failure_iff_exit_code_1 [OF refl refl refl refl refl refl,
        where e = "dev_env (Some (Error (Exit 1)))" and vm = dev_record]
    by (simp add: x)
qed

text \<open>
  Claim C3. The external actions of the \<open>stop\<close> branch: on a mountable record the Unmount
  command and, as soon as Unmount completes with any result at all, the Stop command; on a
  record that is not mountable the Stop command alone.
\<close>

theorem stop_unmounts_then_stops:
  assumes "unmount_cmd = ''umount -f '' @ format_s e (get vm ''mount_point_host'')"
    and "stop_cmd = ''vboxmanage controlvm '' @ format_s e (get vm ''name'') @ '' poweroff''"
  shows "filter external (fst (dispatch e ''stop'' vm)) =
    (if isMountableVM vm
     then (case exec e unmount_cmd of
             None \<Rightarrow> [Exec unmount_cmd]
           | Some r \<Rightarrow> [Exec unmount_cmd, Exec stop_cmd])
     else [Exec stop_cmd])"
proof (cases "isMountableVM vm")
  case True
  then have d: "dispatch e ''stop'' vm = unmountVM e vm (Some (stopVM e))"
    by (simp add: dispatch_def unmountAndStopVM_def)
  show ?thesis
    unfolding d unmountVM_trace [OF assms(1)]
    using True by (simp add: run_callback_def stopVM_external assms(2) split: option.splits)
next
  case False
  then have d: "dispatch e ''stop'' vm = stopVM e vm"
    by (simp add: dispatch_def)
  show ?thesis
    unfolding d using False by (simp add: stopVM_external assms(2))
qed

theorem stop_unmounts_then_stops_witness:
  "filter external (fst (dispatch (dev_env (Some (Error (Exit 1)))) ''stop'' dev_record)) =
     [Exec ''umount -f /mnt/dev'', Exec ''vboxmanage controlvm dev-vm poweroff'']
   \<and> filter external (fst (dispatch (dev_env None) ''stop'' bare_record)) =
     [Exec ''vboxmanage controlvm box poweroff'']"
proof -
  have x: "exec (dev_env err) c = Some \<lparr> error = err, stdout = Some [], stderr = Some [] \<rparr>"
    for err c
    by (simp add: dev_env_def)
  have b: "\<not> isMountableVM bare_record"
    by (simp add: isMountableVM_def bare_record_def)
  show ?thesis
    using stop_unmounts_then_stops [OF refl refl, where e = "dev_env (Some (Error (Exit 1)))"
        and vm = dev_record]
      stop_unmounts_then_stops [OF refl refl, where e = "dev_env None" and vm = bare_record]
    by (simp add: x b dev_mountable) (simp add: dev_record_def bare_record_def format_s_def)
qed

text \<open>
  Claim C4. On a mountable record, when Start completes with exit code 1 the only external
  action of the \<open>start\<close> branch is the Start command: no timer is set, no Mount command is
  issued, and the record is left as it was.
\<close>

theorem start_failure_never_mounts:
  assumes "isMountableVM vm"
    and "start_cmd = ''vboxmanage startvm '' @ format_s e (get vm ''name'') @ '' --type headless''"
    and "exec e start_cmd = Some r"
    and "error r = Some (Error (Exit 1))"
  shows "filter external (fst (dispatch e ''start'' vm)) = [Exec start_cmd]
    \<and> snd (dispatch e ''start'' vm) = vm"
proof -
  have d: "dispatch e ''start'' vm = startVM e vm (Some (mountVM e))"
    using assms(1) by (simp add: dispatch_def startAndMountVM_def)
  show ?thesis
    unfolding d startVM_trace [OF assms(2)] startVM_snd [OF assms(2)]
    using assms(3,4) by (simp add: is_failure_iff)
qed

theorem start_failure_never_mounts_witness:
  "filter external (fst (dispatch (dev_env (Some (Error (Exit 1)))) ''start'' dev_record)) =
     [Exec ''vboxmanage startvm dev-vm --type headless'']"
proof -
  have x: "exec (dev_env (Some (Error (Exit 1)))) c =
      Some \<lparr> error = Some (Error (Exit 1)), stdout = Some [], stderr = Some [] \<rparr>" for c
    by (simp add: dev_env_def)
  show ?thesis
    using start_failure_never_mounts [OF dev_mountable refl x]
    by (simp add: dev_record_def format_s_def)
qed

text \<open>
  Claim C5. A record is mountable exactly when \<open>username\<close> and \<open>mount_point_host\<close> are both
  among its keys, whatever else it holds; a configuration entry that is not an object is
  never mountable.
\<close>

theorem isMountableVM_iff_both_fields:
  "isMountableVM (JObj kvs) =
     (''username'' \<in> fst ` set kvs \<and> ''mount_point_host'' \<in> fst ` set kvs)
   \<and> isMountableVM (JArr xs) = False \<and> isMountableVM (JStr s) = False
   \<and> isMountableVM (JNum n) = False \<and> isMountableVM (JBool b) = False
   \<and> isMountableVM JNull = False \<and> isMountableVM JUndefined = False"
proof -
  have "\<not> isMountableVM (JArr xs)" "\<not> isMountableVM (JStr s)"
    using mountable_obj [of "JArr xs"] mountable_obj [of "JStr s"] by auto
  then show ?thesis by (simp add: isMountableVM_def)
qed

theorem isMountableVM_iff_both_fields_witness:
  "isMountableVM dev_record \<and> \<not> isMountableVM bare_record"
  using isMountableVM_iff_both_fields
      [of "[(''name'', JStr ''dev-vm''), (''username'', JStr ''alice''),
            (''mount_point_host'', JStr ''/mnt/dev'')]"]
    isMountableVM_iff_both_fields [of "[(''name'', JStr ''box''), (''username'', JStr ''bob'')]"]
  by (simp add: dev_record_def bare_record_def)

text \<open>
  Claim C6. For an operation outside the four keywords the whole run is one line, the
  "Invalid operation" error: the file system is not touched, no child process is started,
  and \<open>VMS\<close> keeps its initial \<open>null\<close>.
\<close>

theorem invalid_operation_rejected:
  assumes "operation \<notin> {''start'', ''stop'', ''mount'', ''unmount''}"
  shows "action e operation vmName =
    ([LogError (makeErrorMsg ''Invalid operation'' (Some operation))], JNull)"
  using assms by (simp add: action_def)

theorem invalid_operation_rejected_witness:
  "action (dev_env None) ''restart'' (Some ''dev'') =
     ([LogError [(UnderlineRed, ''ERROR''), (Red, '': Invalid operation''),
                 (Magenta, '' restart'')]], JNull)"
  using invalid_operation_rejected [where operation = "''restart''" and e = "dev_env None"
      and vmName = "Some ''dev''"]
  by (simp add: makeErrorMsg_def chalk_def)



text \<open>
  Claim C8. When the configuration loads and the requested record has a \<open>name\<close> but is not
  mountable, a run of \<open>mount\<close> or \<open>unmount\<close> is the two file-system accesses followed by
  the "Missing mount config." error and nothing else, and the configuration is unchanged.
\<close>

theorem mount_unmount_need_mount_config:
  assumes "operation = ''mount'' \<or> operation = ''unmount''"
    and "path = configFilePath e"
    and "fileExists e path"
    and "VMS = readFileSync e path"
    and "\<not> falsy VMS"
    and "has VMS (prop_key vmName)"
    and "vm = get VMS (prop_key vmName)"
    and "has vm ''name''"
    and "\<not> isMountableVM vm"
  shows "action e operation vmName =
    ([FileExists path, ReadFile path,
      LogError (makeErrorMsg ''Missing mount config.'' None)], VMS)"
proof -
  have op: "operation \<in> set [''start'', ''stop'', ''mount'', ''unmount'']"
    using assms(1) by auto
  have d: "dispatch e operation vm = ([LogError (makeErrorMsg ''Missing mount config.'' None)], vm)"
    using assms(1,9) by (auto simp: dispatch_def)
  show ?thesis
    using action_dispatch [OF op, of e vmName] assms(2-8) d
    by (simp add: set_prop_same)
qed

theorem mount_unmount_need_mount_config_witness:
  "action (dev_env None) ''mount'' (Some ''bare'') =
     ([FileExists ''/home/u/vvm.config.json'', ReadFile ''/home/u/vvm.config.json'',
       LogError [(UnderlineRed, ''ERROR''), (Red, '': Missing mount config.'')]], dev_config)"
proof -
  have r: "readFileSync (dev_env None) ''/home/u/vvm.config.json'' = dev_config"
    and f: "fileExists (dev_env None) ''/home/u/vvm.config.json''"
    by (simp_all add: dev_env_def)
  have g: "get dev_config ''bare'' = bare_record" and h: "has dev_config ''bare''"
    by (simp_all add: dev_config_def)
  show ?thesis
    using mount_unmount_need_mount_config
      [where operation = "''mount''" and e = "dev_env None" and VMS = dev_config
        and vmName = "Some ''bare''" and vm = bare_record, OF _ refl]
    by (simp add: dev_path r f g h prop_key_def makeErrorMsg_def chalk_def)
       (simp add: dev_config_def bare_record_def isMountableVM_def)
qed

text \<open>
  Claim C9. For each of the four operations: when the configuration file does not exist the
  run is the existence probe and the "Could not find config file" error; when it exists
  but does not parse (\<open>readFileSync\<close> gives \<open>null\<close>) the run is the probe, the read and the
  "Failed to parse config file" error. Neither run contains anything else.
\<close>

theorem config_load_failure:
  assumes "operation \<in> {''start'', ''stop'', ''mount'', ''unmount''}"
    and "path = configFilePath e"
  shows "(\<not> fileExists e path \<longrightarrow>
            action e operation vmName =
              ([FileExists path,
                LogError (makeErrorMsg ''Could not find config file '' (Some path))], JNull))
       \<and> (fileExists e path \<and> readFileSync e path = JNull \<longrightarrow>
            action e operation vmName =
              ([FileExists path, ReadFile path,
                LogError (makeErrorMsg ''Failed to parse config file '' (Some path))], JNull))"
  using assms by (auto simp: action_def Let_def)

theorem config_load_failure_witness:
  "action ((dev_env None)\<lparr>fileExists := \<lambda>p. False\<rparr>) ''start'' (Some ''dev'') =
     ([FileExists ''/home/u/vvm.config.json'',
       LogError [(UnderlineRed, ''ERROR''), (Red, '': Could not find config file ''),
                 (Magenta, '' /home/u/vvm.config.json'')]], JNull)
   \<and> action ((dev_env None)\<lparr>readFileSync := \<lambda>p. JNull\<rparr>) ''stop'' (Some ''dev'') =
     ([FileExists ''/home/u/vvm.config.json'', ReadFile ''/home/u/vvm.config.json'',
       LogError [(UnderlineRed, ''ERROR''), (Red, '': Failed to parse config file ''),
                 (Magenta, '' /home/u/vvm.config.json'')]], JNull)"
proof -
  have p: "configFilePath ((dev_env None)\<lparr>fileExists := \<lambda>p. False\<rparr>) = ''/home/u/vvm.config.json''"
    "configFilePath ((dev_env None)\<lparr>readFileSync := \<lambda>p. JNull\<rparr>) = ''/home/u/vvm.config.json''"
    by (simp_all add: configFilePath_def getUserHome_def dev_env_def)
  show ?thesis
    using config_load_failure [where operation = "''start''"
        and e = "(dev_env None)\<lparr>fileExists := \<lambda>p. False\<rparr>" and vmName = "Some ''dev''", OF _ refl]
      config_load_failure [where operation = "''stop''"
        and e = "(dev_env None)\<lparr>readFileSync := \<lambda>p. JNull\<rparr>" and vmName = "Some ''dev''", OF _ refl]
    by (simp add: p makeErrorMsg_def chalk_def) (simp add: dev_env_def)
qed

text \<open>
  Claim C10. With the \<open>[vm]\<close> argument omitted and a configuration that loads, the key
  \<open>undefined\<close> is looked up. If the configuration does not own it the run ends with the
  "No config available for" error, printed without a detail, and starts no child process;
  if it does, the run is that of the VM named \<open>undefined\<close>.
\<close>

theorem omitted_vm_name_is_looked_up:
  assumes "operation \<in> {''start'', ''stop'', ''mount'', ''unmount''}"
    and "path = configFilePath e"
    and "fileExists e path"
    and "VMS = readFileSync e path"
    and "\<not> falsy VMS"
  shows "(\<not> has VMS ''undefined'' \<longrightarrow>
            action e operation None =
              ([FileExists path, ReadFile path,
                LogError [(UnderlineRed, ''ERROR''), (Red, '': No config available for'')]], VMS))
       \<and> (has VMS ''undefined'' \<longrightarrow>
            action e operation None = action e operation (Some ''undefined''))"
  using assms by (auto simp: action_def Let_def prop_key_def makeErrorMsg_def chalk_def)

theorem omitted_vm_name_is_looked_up_witness:
  "action (dev_env None) ''start'' None =
     ([FileExists ''/home/u/vvm.config.json'', ReadFile ''/home/u/vvm.config.json'',
       LogError [(UnderlineRed, ''ERROR''), (Red, '': No config available for'')]], dev_config)"
proof -
  have r: "readFileSync (dev_env None) ''/home/u/vvm.config.json'' = dev_config"
    and f: "fileExists (dev_env None) ''/home/u/vvm.config.json''"
    by (simp_all add: dev_env_def)
  show ?thesis
    using omitted_vm_name_is_looked_up [where operation = "''start''" and e = "dev_env None"
        and VMS = dev_config, OF _ refl]
    by (simp add: dev_path r f) (simp add: dev_config_def)
qed

end
